theory Spec2Isabelle
  imports Complex_Main
begin

section \<open>Pi Lottery Miner: a shallow embedding of \<^verbatim>\<open>pi_lottery_miner.py\<close>\<close>

text \<open>
  Conventions of the embedding.
  \<^item> A Python \<^verbatim>\<open>float\<close> is \<open>pyfloat\<close>: a real number, or one of the three non-finite
    values. Finite arithmetic is exact real arithmetic: rounding and overflow of IEEE
    doubles are not modelled, except in \<open>prob_in_window_fl\<close>, which takes the
    floating-point operations as arguments.
  \<^item> A Python exception is a value \<open>Inl e\<close> of a sum type, a normal return is \<open>Inr v\<close>.
  \<^item> \<^verbatim>\<open>None\<close> is \<open>None\<close> of an option type.
  \<^item> A dictionary is a map \<open>'k \<rightharpoonup> 'v\<close>.
\<close>

subsection \<open>Values and errors\<close>

datatype pyfloat = Fin real | PInf | NInf | NaN

datatype py_error = ZeroDivisionError | ValueError | TypeError

text \<open>\<^verbatim>\<open>math.isfinite\<close>.\<close>

fun isfinite :: "pyfloat \<Rightarrow> bool" where
  "isfinite (Fin _) = True"
| "isfinite _ = False"

text \<open>Python's \<^verbatim>\<open>a / b\<close> on finite floats: a zero divisor raises.\<close>

definition truediv :: "real \<Rightarrow> real \<Rightarrow> py_error + real" where
  "truediv a b = (if b = 0 then Inl ZeroDivisionError else Inr (a / b))"

text \<open>Truthiness of an optional number: \<^verbatim>\<open>not diff\<close> holds for \<^verbatim>\<open>None\<close> and for zero.\<close>

fun falsy :: "real option \<Rightarrow> bool" where
  "falsy None = True"
| "falsy (Some d) = (d = 0)"

subsection \<open>The probability model\<close>

text \<open>
  \<^verbatim>\<open>
  def net_hps_from_diff(d): return d * (2**32) / 600.0
  def expected_time_s(hps, diff):
      if hps<=0 or not diff: return float("inf")
      return diff * (2**32) / hps
  def prob_in_window(hps, diff, seconds):
      t=expected_time_s(hps, diff)
      if not math.isfinite(t) or t<=0: return 0.0
      lam=seconds/t
      return lam if lam<1e-6 else 1.0-math.exp(-lam)
  \<close>
\<close>

definition net_hps_from_diff :: "real \<Rightarrow> real" where
  "net_hps_from_diff d = d * 2 ^ 32 / 600"

text \<open>
  The two functions are written over the division operator \<open>dv\<close>, so that a statement
  can say with which operands a division is evaluated; the program's functions are the
  instances at Python's division \<open>truediv\<close>.
\<close>

definition expected_time_s_with ::
  "(real \<Rightarrow> real \<Rightarrow> py_error + real) \<Rightarrow> real \<Rightarrow> real option \<Rightarrow> py_error + pyfloat" where
  "expected_time_s_with dv hps diff =
     (if hps \<le> 0 \<or> falsy diff then Inr PInf
      else (case diff of
              None \<Rightarrow> Inl TypeError
            | Some d \<Rightarrow> map_sum id Fin (dv (d * 2 ^ 32) hps)))"

definition expected_time_s :: "real \<Rightarrow> real option \<Rightarrow> py_error + pyfloat" where
  "expected_time_s = expected_time_s_with truediv"

definition prob_in_window_with ::
  "(real \<Rightarrow> real \<Rightarrow> py_error + real) \<Rightarrow> real \<Rightarrow> real option \<Rightarrow> real \<Rightarrow> py_error + real" where
  "prob_in_window_with dv hps diff seconds =
     (case expected_time_s hps diff of
        Inl e \<Rightarrow> Inl e
      | Inr t \<Rightarrow>
          (case t of
             Fin tv \<Rightarrow>
               (if tv \<le> 0 then Inr 0
                else (case dv seconds tv of
                        Inl e \<Rightarrow> Inl e
                      | Inr lam \<Rightarrow> Inr (if lam < 1 / 10 ^ 6 then lam else 1 - exp (- lam))))
           | _ \<Rightarrow> Inr 0))"

definition prob_in_window :: "real \<Rightarrow> real option \<Rightarrow> real \<Rightarrow> py_error + real" where
  "prob_in_window = prob_in_window_with truediv"

text \<open>
  The same function over the floating-point operations that evaluate it, for statements
  that depend on rounding: \<open>fdiv\<close> is the quotient of two floats (the divisor not zero),
  \<open>fexp\<close> is \<^verbatim>\<open>math.exp\<close>, \<open>fsub\<close> is the difference of two floats and \<open>lit\<close> is the
  float that the literal \<^verbatim>\<open>1e-6\<close> denotes. The negation of a float and the product of
  the difficulty with \<^verbatim>\<open>2**32\<close> are exact; overflow to infinity is not modelled. The
  function \<open>prob_in_window\<close> is the instance at \<open>(/)\<close>, \<open>exp\<close>, \<open>(-)\<close> and \<open>10^-6\<close>.
\<close>

definition truediv_fl :: "(real \<Rightarrow> real \<Rightarrow> real) \<Rightarrow> real \<Rightarrow> real \<Rightarrow> py_error + real" where
  "truediv_fl fdiv a b = (if b = 0 then Inl ZeroDivisionError else Inr (fdiv a b))"

definition prob_in_window_fl ::
  "(real \<Rightarrow> real \<Rightarrow> real) \<Rightarrow> (real \<Rightarrow> real) \<Rightarrow> (real \<Rightarrow> real \<Rightarrow> real) \<Rightarrow> real
     \<Rightarrow> real \<Rightarrow> real option \<Rightarrow> real \<Rightarrow> py_error + real" where
  "prob_in_window_fl fdiv fexp fsub lit hps diff seconds =
     (case expected_time_s_with (truediv_fl fdiv) hps diff of
        Inl e \<Rightarrow> Inl e
      | Inr t \<Rightarrow>
          (case t of
             Fin tv \<Rightarrow>
               (if tv \<le> 0 then Inr 0
                else (case truediv_fl fdiv seconds tv of
                        Inl e \<Rightarrow> Inl e
                      | Inr lam \<Rightarrow> Inr (if lam < lit then lam else fsub 1 (fexp (- lam)))))
           | _ \<Rightarrow> Inr 0))"

subsection \<open>Strings\<close>

text \<open>
  A Python \<^verbatim>\<open>str\<close> is a \<open>string\<close>; a character outside ASCII stands as its UTF-8
  bytes. \<open>str_nat\<close> and \<open>str_int\<close> are \<^verbatim>\<open>str\<close> on integers, \<open>fmt_comma\<close> is the
  format \<^verbatim>\<open>f"{n:,}"\<close> of a non-negative integer, \<open>replace_char\<close> is \<^verbatim>\<open>str.replace\<close>
  for two one-character strings, \<open>join\<close> is \<^verbatim>\<open>sep.join\<close> and \<open>startswith\<close> is
  \<^verbatim>\<open>str.startswith\<close>.
\<close>

definition em_dash :: string where
  "em_dash = [char_of (226 :: nat), char_of (128 :: nat), char_of (148 :: nat)]"

definition digit_char :: "nat \<Rightarrow> char" where
  "digit_char d = ''0123456789'' ! d"

fun str_nat :: "nat \<Rightarrow> string" where
  "str_nat n = (if n < 10 then [digit_char n] else str_nat (n div 10) @ [digit_char (n mod 10)])"

definition str_int :: "int \<Rightarrow> string" where
  "str_int i = (if i < 0 then ''-'' @ str_nat (nat (- i)) else str_nat (nat i))"

definition pad3 :: "nat \<Rightarrow> string" where
  "pad3 k = [digit_char (k div 100), digit_char (k div 10 mod 10), digit_char (k mod 10)]"

fun fmt_comma :: "nat \<Rightarrow> string" where
  "fmt_comma n =
     (if n < 1000 then str_nat n else fmt_comma (n div 1000) @ '','' @ pad3 (n mod 1000))"

definition replace_char :: "char \<Rightarrow> char \<Rightarrow> string \<Rightarrow> string" where
  "replace_char old new s = map (\<lambda>c. if c = old then new else c) s"

fun join :: "string \<Rightarrow> string list \<Rightarrow> string" where
  "join sep [] = []"
| "join sep [x] = x"
| "join sep (x # y # ys) = x @ sep @ join sep (y # ys)"

definition startswith :: "string \<Rightarrow> string \<Rightarrow> bool" where
  "startswith s p = (take (length p) s = p)"

subsection \<open>Formatting a duration\<close>

text \<open>
  \<^verbatim>\<open>
  def human_duration(seconds):
      if not seconds or not math.isfinite(seconds): return "-"     (an em dash)
      years = int(seconds // (365*86400))
      if years >= 10000:
          return f"{years:,}".replace(",", ".") + " years"
      seconds -= years * 365*86400
      days = int(seconds // 86400); seconds -= days*86400
      hours = int(seconds // 3600); seconds -= hours*3600
      minutes = int(seconds // 60); sec = int(seconds - minutes*60)
      parts = []
      if years: parts.append(f"{years}y")
      if days and len(parts) < 3: parts.append(f"{days}d")
      if hours and len(parts) < 3: parts.append(f"{hours}h")
      if minutes and len(parts) < 3: parts.append(f"{minutes}m")
      if sec and len(parts) < 3: parts.append(f"{sec}s")
      return " ".join(parts) if parts else "0s"
  \<close>
  \<^verbatim>\<open>x // y\<close> on floats is the floor of the quotient, and \<^verbatim>\<open>int\<close> truncates towards zero.
\<close>

definition py_int :: "real \<Rightarrow> int" where
  "py_int x = (if 0 \<le> x then \<lfloor>x\<rfloor> else \<lceil>x\<rceil>)"

definition floordiv :: "real \<Rightarrow> real \<Rightarrow> int" where
  "floordiv x y = \<lfloor>x / y\<rfloor>"

text \<open>One guarded \<^verbatim>\<open>parts.append\<close>: \<^verbatim>\<open>if v and len(parts) < 3: parts.append(f"{v}u")\<close>.\<close>

definition add_part :: "int \<Rightarrow> char \<Rightarrow> string list \<Rightarrow> string list" where
  "add_part v u parts =
     (if v \<noteq> 0 \<and> length parts < 3 then parts @ [str_int v @ [u]] else parts)"

definition human_duration_finite :: "real \<Rightarrow> string" where
  "human_duration_finite seconds =
     (let years = floordiv seconds (365 * 86400) in
      if years \<ge> 10000
      then replace_char (CHR '','') (CHR ''.'') (fmt_comma (nat years)) @ '' years''
      else
        let s1 = seconds - of_int (years * 365 * 86400);
            days = floordiv s1 86400; s2 = s1 - of_int (days * 86400);
            hours = floordiv s2 3600; s3 = s2 - of_int (hours * 3600);
            minutes = floordiv s3 60; sec = py_int (s3 - of_int (minutes * 60));
            parts = (if years \<noteq> 0 then [str_int years @ ''y''] else []);
            parts = add_part days (CHR ''d'') parts;
            parts = add_part hours (CHR ''h'') parts;
            parts = add_part minutes (CHR ''m'') parts;
            parts = add_part sec (CHR ''s'') parts
        in if parts \<noteq> [] then join '' '' parts else ''0s'')"

fun human_duration :: "pyfloat option \<Rightarrow> string" where
  "human_duration None = em_dash"
| "human_duration (Some (Fin s)) = (if s = 0 then em_dash else human_duration_finite s)"
| "human_duration (Some _) = em_dash"

subsection \<open>The BFGMiner API adapter\<close>

text \<open>
  \<^verbatim>\<open>
  def get_bfgminer_hashrate_hps():
      resp = query_cgminer_api(CONFIG["api_host"], CONFIG["api_port"], "summary")
      if resp:
          for key in ("MHS av","MHS 5s","MHS 1m","MHS 5m","MHS 15m","GHS av","KHS 5s","KHS av"):
              if key in resp:
                  try:
                      val=float(resp[key]); factor=1e6 if key.startswith("MHS") else (1e9 if key.startswith("GHS") else 1e3)
                      return val*factor, "BFGMiner API"
                  except Exception: pass
          if "KHS" in resp: return float(resp["KHS"])*1e3, "BFGMiner API"
          if "GHS" in resp: return float(resp["GHS"])*1e9, "BFGMiner API"
      return 0.0, "BFGMiner API (no data)"
  \<close>
  The answer of \<^verbatim>\<open>query_cgminer_api\<close> is the argument \<open>resp\<close>: \<open>None\<close>, or a dictionary
  from keys to values of some type \<open>'v\<close>. Python's \<^verbatim>\<open>float\<close> on such a value is the
  parameter \<open>to_float\<close>, which raises (\<open>Inl\<close>) or gives a number.
\<close>

definition priority_keys :: "string list" where
  "priority_keys =
     [''MHS av'', ''MHS 5s'', ''MHS 1m'', ''MHS 5m'', ''MHS 15m'', ''GHS av'', ''KHS 5s'', ''KHS av'']"

definition factor :: "string \<Rightarrow> real" where
  "factor key =
     (if startswith key ''MHS'' then 10 ^ 6 else (if startswith key ''GHS'' then 10 ^ 9 else 10 ^ 3))"

text \<open>The \<^verbatim>\<open>for\<close> loop: \<open>Some\<close> is its \<^verbatim>\<open>return\<close>, \<open>None\<close> is falling out of the loop.\<close>

fun scan_keys ::
  "('v \<Rightarrow> py_error + real) \<Rightarrow> (string \<rightharpoonup> 'v) \<Rightarrow> string list \<Rightarrow> (real \<times> string) option" where
  "scan_keys to_float resp [] = None"
| "scan_keys to_float resp (key # keys) =
     (case resp key of
        None \<Rightarrow> scan_keys to_float resp keys
      | Some x \<Rightarrow>
          (case to_float x of
             Inr val \<Rightarrow> Some (val * factor key, ''BFGMiner API'')
           | Inl e \<Rightarrow> scan_keys to_float resp keys))"

definition get_bfgminer_hashrate_hps ::
  "('v \<Rightarrow> py_error + real) \<Rightarrow> (string \<rightharpoonup> 'v) option \<Rightarrow> py_error + (real \<times> string)" where
  "get_bfgminer_hashrate_hps to_float resp =
     (case resp of
        None \<Rightarrow> Inr (0, ''BFGMiner API (no data)'')
      | Some r \<Rightarrow>
          if r = Map.empty then Inr (0, ''BFGMiner API (no data)'')
          else
            (case scan_keys to_float r priority_keys of
               Some result \<Rightarrow> Inr result
             | None \<Rightarrow>
                 (case r ''KHS'' of
                    Some x \<Rightarrow> map_sum id (\<lambda>v. (v * 10 ^ 3, ''BFGMiner API'')) (to_float x)
                  | None \<Rightarrow>
                      (case r ''GHS'' of
                         Some x \<Rightarrow> map_sum id (\<lambda>v. (v * 10 ^ 9, ''BFGMiner API'')) (to_float x)
                       | None \<Rightarrow> Inr (0, ''BFGMiner API (no data)'')))))"

text \<open>
  A key is usable when it is in the dictionary and \<^verbatim>\<open>float\<close> accepts its value.
\<close>

definition usable :: "('v \<Rightarrow> py_error + real) \<Rightarrow> (string \<rightharpoonup> 'v) \<Rightarrow> string \<Rightarrow> bool" where
  "usable to_float resp key =
     (case resp key of None \<Rightarrow> False
      | Some x \<Rightarrow> (case to_float x of Inl e \<Rightarrow> False | Inr v \<Rightarrow> True))"

text \<open>
  For the examples: \<^verbatim>\<open>float\<close> on strings of decimal digits. Python's \<^verbatim>\<open>float\<close> accepts
  more strings (a sign, a fraction, an exponent); on a string with a letter other than
  those of its special values, such as \<^verbatim>\<open>"abc"\<close>, both raise \<^verbatim>\<open>ValueError\<close>.
\<close>

fun digits_value :: "string \<Rightarrow> nat \<Rightarrow> nat option" where
  "digits_value [] acc = Some acc"
| "digits_value (c # cs) acc =
     (if c \<in> set ''0123456789''
      then digits_value cs (10 * acc + (of_char c - 48))
      else None)"

definition float_of_digits :: "string \<Rightarrow> py_error + real" where
  "float_of_digits s =
     (if s = [] then Inl ValueError
      else (case digits_value s 0 of None \<Rightarrow> Inl ValueError | Some n \<Rightarrow> Inr (real n)))"

subsection \<open>Fetching the network statistics\<close>

text \<open>
  \<^verbatim>\<open>
  def fetch_difficulty_and_height():
      if requests is None: return None, None, "requests missing"
      try:
          d=float(requests.get(CONFIG["api_difficulty"], timeout=5).text.strip())
      except Exception as e:
          return None, None, f"difficulty err: {e}"
      try:
          h=int(requests.get(CONFIG["api_height"], timeout=5).text.strip())
      except Exception as e:
          return d, None, f"height err: {e}"
      return d, h, "OK"
  \<close>
  The world outside is the record \<open>net_env\<close>: whether the \<^verbatim>\<open>requests\<close> module was
  imported, the two configured URLs, what a GET of a URL does (it raises with a message,
  \<open>Inl\<close>, or answers with a body), and the two conversions of a body (\<^verbatim>\<open>strip\<close> and then
  \<^verbatim>\<open>float\<close> or \<^verbatim>\<open>int\<close>), which also raise with a message or give a number. The function
  returns its triple together with the list of the URLs it requested, in order.
\<close>

record net_env =
  requests_present :: bool
  api_difficulty :: string
  api_height :: string
  http_get :: "string \<Rightarrow> string + string"
  body_float :: "string \<Rightarrow> string + real"
  body_int :: "string \<Rightarrow> string + int"

definition fetch_difficulty_and_height ::
  "net_env \<Rightarrow> (real option \<times> int option \<times> string) \<times> string list" where
  "fetch_difficulty_and_height env =
     (if \<not> requests_present env then ((None, None, ''requests missing''), [])
      else
        (case (case http_get env (api_difficulty env) of
                 Inl e \<Rightarrow> Inl e | Inr reply \<Rightarrow> body_float env reply) of
           Inl e \<Rightarrow> ((None, None, ''difficulty err: '' @ e), [api_difficulty env])
         | Inr d \<Rightarrow>
             (case (case http_get env (api_height env) of
                      Inl e \<Rightarrow> Inl e | Inr reply \<Rightarrow> body_int env reply) of
                Inl e \<Rightarrow>
                  ((Some d, None, ''height err: '' @ e), [api_difficulty env, api_height env])
              | Inr h \<Rightarrow>
                  ((Some d, Some h, ''OK''), [api_difficulty env, api_height env]))))"

subsection \<open>The application state and its two loops\<close>

text \<open>
  The fields of \<^verbatim>\<open>TouchApp\<close> that the data loops write. A timestamp (\<^verbatim>\<open>time.time()\<close>)
  and a hashrate are reals.
\<close>

record app_state =
  graph_data :: "(real \<times> real) list"
  miner_hps :: real
  miner_src :: string
  difficulty :: "real option"
  height :: "int option"
  net_hps :: "real option"

record config =
  mock_khs_base :: real
  show_odds_when_zero :: bool
  graph_jitter_pct :: real

text \<open>
  \<^verbatim>\<open>
  def _jitter(value, pct, prev):
      if value <= 0 or pct <= 0: return value
      j = value * (1.0 + random.uniform(-pct, pct))
      if prev is not None: j = 0.70 * prev + 0.30 * j
      return max(0.0, j)
  \<close>
  The draw \<^verbatim>\<open>random.uniform(-pct, pct)\<close> is the argument \<open>u\<close>.
\<close>

definition jitter :: "real \<Rightarrow> real \<Rightarrow> real option \<Rightarrow> real \<Rightarrow> real" where
  "jitter v pct prev u =
     (if v \<le> 0 \<or> pct \<le> 0 then v
      else
        (let j = v * (1 + u);
             j = (case prev of None \<Rightarrow> j | Some p \<Rightarrow> 70 / 100 * p + 30 / 100 * j)
         in max 0 j))"

text \<open>
  One iteration of \<^verbatim>\<open>_miner_loop\<close>, after the hashrate \<open>hps\<close> and its source \<open>src\<close> have
  been read (step 1), at the time \<open>now\<close>:
  \<^verbatim>\<open>
      self.miner_hps, self.miner_src = hps, src
      if hps > 0:
          g_hps = hps
      else:
          g_hps = CONFIG["mock_khs_base"]*1e3 if CONFIG["show_odds_when_zero"] else 0.0
          prev_val = self.graph_data[-1][1] if self.graph_data else None
          g_hps = _jitter(g_hps, CONFIG["graph_jitter_pct"], prev_val)
      now = time.time()
      self.graph_data.append((now, g_hps))
      cutoff = now - 300
      self.graph_data = [(t, v) for (t, v) in self.graph_data if t >= cutoff]
  \<close>
\<close>

definition miner_loop_step ::
  "config \<Rightarrow> real \<Rightarrow> string \<Rightarrow> real \<Rightarrow> real \<Rightarrow> app_state \<Rightarrow> app_state" where
  "miner_loop_step cfg hps src u now st =
     (let g_hps =
            (if hps > 0 then hps
             else
               (let g = (if show_odds_when_zero cfg then mock_khs_base cfg * 10 ^ 3 else 0);
                    prev_val = (if graph_data st \<noteq> [] then Some (snd (last (graph_data st)))
                                else None)
                in jitter g (graph_jitter_pct cfg) prev_val u));
          appended = graph_data st @ [(now, g_hps)];
          cutoff = now - 300
      in st\<lparr>miner_hps := hps, miner_src := src,
             graph_data := filter (\<lambda>(t, v). t \<ge> cutoff) appended\<rparr>)"

text \<open>A run of the loop: one reading \<open>(hps, src, u, now)\<close> for each iteration.\<close>

fun miner_loop :: "config \<Rightarrow> (real \<times> string \<times> real \<times> real) list \<Rightarrow> app_state \<Rightarrow> app_state" where
  "miner_loop cfg [] st = st"
| "miner_loop cfg ((hps, src, u, now) # rest) st =
     miner_loop cfg rest (miner_loop_step cfg hps src u now st)"

text \<open>
  One iteration of \<^verbatim>\<open>_network_loop\<close>, with the triple that the fetch returned:
  \<^verbatim>\<open>
      d,h,st=fetch_difficulty_and_height()
      if d is not None:
          self.difficulty=d; self.net_hps=net_hps_from_diff(d)
      if h is not None: self.height=h
  \<close>
\<close>

definition network_loop_step ::
  "real option \<times> int option \<times> string \<Rightarrow> app_state \<Rightarrow> app_state" where
  "network_loop_step fetched st =
     (case fetched of (d, h, status) \<Rightarrow>
        (let st1 = (case d of
                      Some dv \<Rightarrow> st\<lparr>difficulty := Some dv, net_hps := Some (net_hps_from_diff dv)\<rparr>
                    | None \<Rightarrow> st)
         in (case h of Some hv \<Rightarrow> st1\<lparr>height := Some hv\<rparr> | None \<Rightarrow> st1)))"

subsection \<open>The web handler\<close>

text \<open>
  \<^verbatim>\<open>
  def do_GET(self):
      if self.path == "/" or self.path.startswith("/index"):
          html = ...; body = html.encode("utf-8")
          self.send_response(200)
          self.send_header("Content-Type","text/html; charset=utf-8")
          self.send_header("Content-Length", str(len(body)))
          self.end_headers(); self.wfile.write(body)
      elif self.path == "/stats.json":
          data = STATS.snapshot()
          self.send_response(200)
          self.send_header("Content-Type","application/json; charset=utf-8")
          self.send_header("Content-Length", str(len(data)))
          self.end_headers(); self.wfile.write(data)
      else:
          self.send_response(404); self.end_headers()
  \<close>
  The response is its status, the headers the handler sends and the bytes it writes.
  The bytes of the dashboard page (the literal \<^verbatim>\<open>html\<close>, encoded) are the argument
  \<open>page\<close>, the bytes of \<^verbatim>\<open>STATS.snapshot()\<close> are the argument \<open>snapshot\<close>.
\<close>

record response =
  status :: nat
  headers :: "(string \<times> string) list"
  body :: string

definition do_GET :: "string \<Rightarrow> string \<Rightarrow> string \<Rightarrow> response" where
  "do_GET page snapshot path =
     (if path = ''/'' \<or> startswith path ''/index''
      then \<lparr>status = 200,
            headers = [(''Content-Type'', ''text/html; charset=utf-8''),
                       (''Content-Length'', str_nat (length page))],
            body = page\<rparr>
      else if path = ''/stats.json''
      then \<lparr>status = 200,
            headers = [(''Content-Type'', ''application/json; charset=utf-8''),
                       (''Content-Length'', str_nat (length snapshot))],
            body = snapshot\<rparr>
      else \<lparr>status = 404, headers = [], body = []\<rparr>)"

declare str_nat.simps [simp del] fmt_comma.simps [simp del]

section \<open>Properties\<close>

subsection \<open>Expected time and probability in a window\<close>

lemma expected_time_s_None: "expected_time_s hps None = Inr PInf"
  by (simp add: expected_time_s_def expected_time_s_with_def)

lemma expected_time_s_Some:
  "expected_time_s hps (Some d) =
     Inr (if hps \<le> 0 \<or> d = 0 then PInf else Fin (d * 2 ^ 32 / hps))"
  by (simp add: expected_time_s_def expected_time_s_with_def truediv_def)

lemma prob_in_window_Some:
  "prob_in_window hps (Some d) w =
     Inr (if hps \<le> 0 \<or> d = 0 \<or> d * 2 ^ 32 / hps \<le> 0 then 0
          else if w / (d * 2 ^ 32 / hps) < 1 / 10 ^ 6 then w / (d * 2 ^ 32 / hps)
          else 1 - exp (- (w / (d * 2 ^ 32 / hps))))"
  by (simp add: prob_in_window_def prob_in_window_with_def expected_time_s_Some truediv_def)


text \<open>
  C4, as the code has it. The claim reads: infinity when the hashrate is not positive or
  the difficulty is absent, and otherwise \<open>d * 2^32 / h\<close>. The test \<^verbatim>\<open>not diff\<close> also
  holds for a difficulty of zero, so a present difficulty of \<open>0\<close> gives infinity and not
  \<open>0 * 2^32 / h = 0\<close>. With that third case added the claim holds: the result is
  infinity when \<open>h \<le> 0\<close>, or the difficulty is absent or zero; otherwise it is
  \<open>d * 2^32 / h\<close>; and \<open>expected_time_s 0 d\<close> is infinity for every \<open>d\<close>.
\<close>

theorem expected_time_s_cases:
  "expected_time_s h None = Inr PInf
   \<and> expected_time_s h (Some d) =
       Inr (if h \<le> 0 \<or> d = 0 then PInf else Fin (d * 2 ^ 32 / h))
   \<and> expected_time_s 0 (Some d) = Inr PInf"
  by (simp add: expected_time_s_None expected_time_s_Some)

text \<open>
  C4 as stated fails at a present difficulty of zero with a positive hashrate: the claim
  gives \<open>0 * 2^32 / 1 = 0\<close>, the code gives infinity.
\<close>

theorem expected_time_s_zero_difficulty:
  "expected_time_s 1 (Some 0) = Inr PInf
   \<and> expected_time_s 1 (Some 0) \<noteq> Inr (Fin (0 * 2 ^ 32 / 1))"
  by (simp add: expected_time_s_Some)



subsection \<open>Monotonicity in the window\<close>

lemma one_minus_exp_upper:
  fixes x :: real
  assumes "0 \<le> x" "x \<le> 2"
  shows "1 - exp (- x) \<le> x - x\<^sup>2 / 4"
proof -
  have "1 + (- x / 2) \<le> exp (- x / 2)" by (rule exp_ge_add_one_self)
  moreover have "0 \<le> 1 + (- x / 2)" using assms by simp
  ultimately have "(1 + (- x / 2))\<^sup>2 \<le> (exp (- x / 2))\<^sup>2"
    by (rule power_mono)
  moreover have "(exp (- x / 2))\<^sup>2 = exp (- x)"
    by (simp add: exp_double [symmetric])
  moreover have "(1 + (- x / 2))\<^sup>2 = 1 - x + x\<^sup>2 / 4"
    by (simp add: power2_eq_square algebra_simps)
  ultimately show ?thesis by simp
qed

lemma boundary_drop: "1 - exp (- (1 / 10 ^ 6 :: real)) < 9999999 / 10 ^ 13"
proof -
  have "1 - exp (- (1 / 10 ^ 6 :: real)) \<le> (1 / 10 ^ 6) - (1 / 10 ^ 6)\<^sup>2 / 4"
    by (rule one_minus_exp_upper) simp_all
  also have "\<dots> < 9999999 / 10 ^ 13" by (simp add: power2_eq_square)
  finally show ?thesis .
qed

lemma prob_in_window_exact_instance:
  "prob_in_window = prob_in_window_fl (/) exp (-) (1 / 10 ^ 6)"
proof -
  have "truediv_fl (/) = truediv"
    by (intro ext) (simp add: truediv_fl_def truediv_def)
  then show ?thesis
    by (intro ext)
      (simp only: prob_in_window_def prob_in_window_with_def prob_in_window_fl_def
        expected_time_s_def)
qed

lemma prob_in_window_fl_pos:
  assumes "0 < h" "d \<noteq> 0"
  shows "prob_in_window_fl fdiv fexp fsub lit h (Some d) w =
     Inr (if fdiv (d * 2 ^ 32) h \<le> 0 then 0
          else if fdiv w (fdiv (d * 2 ^ 32) h) < lit then fdiv w (fdiv (d * 2 ^ 32) h)
          else fsub 1 (fexp (- fdiv w (fdiv (d * 2 ^ 32) h))))"
  using assms
  by (simp add: prob_in_window_fl_def expected_time_s_with_def truediv_fl_def)

lemma one_minus_exp_lower:
  fixes x :: real
  assumes "0 \<le> x"
  shows "1 - 1 / (1 + x + x\<^sup>2 / 2) \<le> 1 - exp (- x)"
proof -
  have a: "1 + x + x\<^sup>2 / 2 \<le> exp x" using assms by (rule exp_lower_Taylor_quadratic)
  have b: "0 < 1 + x + x\<^sup>2 / 2" using assms by (simp add: add_pos_nonneg)
  have "exp (- x) = 1 / exp x" by (simp add: exp_minus inverse_eq_divide)
  also have "\<dots> \<le> 1 / (1 + x + x\<^sup>2 / 2)" using a b by (simp add: frac_le)
  finally show ?thesis by simp
qed

lemma boundary_value_lower: "9999994 / 10 ^ 13 < 1 - exp (- (1 / 10 ^ 6 :: real))"
proof -
  have "(9999994 / 10 ^ 13 :: real) < 1 - 1 / (1 + 1 / 10 ^ 6 + (1 / 10 ^ 6)\<^sup>2 / 2)"
    by (simp add: power2_eq_square field_simps)
  also have "\<dots> \<le> 1 - exp (- (1 / 10 ^ 6 :: real))"
    by (rule one_minus_exp_lower) simp
  finally show ?thesis .
qed

text \<open>
  C3, as the code has it, for floating-point operations that round monotonically: the
  quotient by a positive divisor does not decrease when the dividend grows and is \<open>0\<close>
  for the dividend \<open>0\<close>, \<^verbatim>\<open>math.exp\<close> does not decrease when its argument grows (among
  the arguments that are not positive), and \<^verbatim>\<open>1.0 - y\<close> does not increase when \<open>y\<close>
  grows. Take a positive hashrate and a positive
  difficulty, windows \<open>0 \<le> w1 \<le> w2\<close>, and let \<open>lam1\<close> and \<open>lam2\<close> be the values of
  \<^verbatim>\<open>lam\<close> that the function computes for them. The probability of the empty window is
  \<open>0\<close>. When the computed expected time is not positive, both probabilities are \<open>0\<close>.
  Otherwise \<open>lam1 \<le> lam2\<close>, and
  \<^item> when both are below \<^verbatim>\<open>1e-6\<close>, the probabilities are \<open>lam1\<close> and \<open>lam2\<close> themselves;
  \<^item> when both are at least \<^verbatim>\<open>1e-6\<close>, the probability does not decrease;
  \<^item> when \<open>lam1\<close> is below \<^verbatim>\<open>1e-6\<close> and \<open>lam2\<close> is not, the probability strictly
    increases provided \<open>lam1\<close> is below \<^verbatim>\<open>1.0 - math.exp(-1e-6)\<close>, the value of the
    function at the boundary.

  Strict growth inside the exponential branch is not stated: the rounded difference
  \<^verbatim>\<open>1.0 - math.exp(-lam)\<close> can be the same float for two values of \<open>lam\<close>. Nothing is
  stated for \<open>lam1\<close> between \<^verbatim>\<open>1.0 - math.exp(-1e-6)\<close> and \<^verbatim>\<open>1e-6\<close> against a \<open>lam2\<close> of
  at least \<^verbatim>\<open>1e-6\<close>.
\<close>

theorem prob_in_window_monotone:
  fixes fdiv :: "real \<Rightarrow> real \<Rightarrow> real" and fexp :: "real \<Rightarrow> real"
    and fsub :: "real \<Rightarrow> real \<Rightarrow> real" and lit h d w1 w2 :: real
  assumes fdiv_zero: "\<forall>t. 0 < t \<longrightarrow> fdiv 0 t = 0"
    and fdiv_mono: "\<forall>x y t. 0 < t \<and> x \<le> y \<longrightarrow> fdiv x t \<le> fdiv y t"
    and fexp_mono: "\<forall>x y. x \<le> y \<and> y \<le> 0 \<longrightarrow> fexp x \<le> fexp y"
    and fsub_mono: "\<forall>x y. x \<le> y \<longrightarrow> fsub 1 y \<le> fsub 1 x"
    and lit: "0 < lit"
    and h: "0 < h" and d: "0 < d" and w: "0 \<le> w1" "w1 \<le> w2"
  shows "prob_in_window_fl fdiv fexp fsub lit h (Some d) 0 = Inr 0
    \<and> (\<exists>p1 p2. prob_in_window_fl fdiv fexp fsub lit h (Some d) w1 = Inr p1
          \<and> prob_in_window_fl fdiv fexp fsub lit h (Some d) w2 = Inr p2
          \<and> (let t = fdiv (d * 2 ^ 32) h; lam1 = fdiv w1 t; lam2 = fdiv w2 t in
               (t \<le> 0 \<longrightarrow> p1 = 0 \<and> p2 = 0)
               \<and> (0 < t \<longrightarrow>
                    lam1 \<le> lam2
                    \<and> (lam2 < lit \<longrightarrow> p1 = lam1 \<and> p2 = lam2)
                    \<and> (lit \<le> lam1 \<longrightarrow> p1 \<le> p2)
                    \<and> (lam1 < lit \<and> lit \<le> lam2 \<and> lam1 < fsub 1 (fexp (- lit))
                         \<longrightarrow> p1 < p2))))"
proof -
  define t where "t = fdiv (d * 2 ^ 32) h"
  define g where "g lam = (if lam < lit then lam else fsub 1 (fexp (- lam)))" for lam
  define P where "P = prob_in_window_fl fdiv fexp fsub lit h (Some d)"
  have d0: "d \<noteq> 0" using d by simp
  have P: "P x = Inr (if t \<le> 0 then 0 else g (fdiv x t))" for x
    unfolding P_def t_def g_def using h d0 by (rule prob_in_window_fl_pos)
  have zero: "P 0 = Inr 0"
  proof (cases "t \<le> 0")
    case True
    then show ?thesis by (simp add: P)
  next
    case False
    then have "fdiv 0 t = 0" using fdiv_zero by simp
    with False lit show ?thesis by (simp add: P g_def)
  qed
  define p1 where "p1 = (if t \<le> 0 then 0 else g (fdiv w1 t))"
  define p2 where "p2 = (if t \<le> 0 then 0 else g (fdiv w2 t))"
  have r: "P w1 = Inr p1" "P w2 = Inr p2" by (simp_all add: P p1_def p2_def)
  have deg: "t \<le> 0 \<longrightarrow> p1 = 0 \<and> p2 = 0" by (simp add: p1_def p2_def)
  have main: "fdiv w1 t \<le> fdiv w2 t
      \<and> (fdiv w2 t < lit \<longrightarrow> p1 = fdiv w1 t \<and> p2 = fdiv w2 t)
      \<and> (lit \<le> fdiv w1 t \<longrightarrow> p1 \<le> p2)
      \<and> (fdiv w1 t < lit \<and> lit \<le> fdiv w2 t \<and> fdiv w1 t < fsub 1 (fexp (- lit))
           \<longrightarrow> p1 < p2)" if t: "0 < t"
  proof -
    have lam: "fdiv w1 t \<le> fdiv w2 t" using fdiv_mono t w(2) by blast
    have q: "p1 = g (fdiv w1 t)" "p2 = g (fdiv w2 t)" using t by (simp_all add: p1_def p2_def)
    have gm: "fsub 1 (fexp (- x)) \<le> fsub 1 (fexp (- y))" if "lit \<le> x" "x \<le> y" for x y
    proof -
      from that lit have "- y \<le> - x" "- x \<le> 0" by simp_all
      then have "fexp (- y) \<le> fexp (- x)" using fexp_mono by blast
      then show ?thesis using fsub_mono by blast
    qed
    have a: "fdiv w2 t < lit \<longrightarrow> p1 = fdiv w1 t \<and> p2 = fdiv w2 t"
      using lam by (simp add: q g_def)
    have b: "lit \<le> fdiv w1 t \<longrightarrow> p1 \<le> p2"
    proof
      assume "lit \<le> fdiv w1 t"
      with lam have "\<not> fdiv w1 t < lit" "\<not> fdiv w2 t < lit" by simp_all
      then show "p1 \<le> p2" using gm [OF \<open>lit \<le> fdiv w1 t\<close> lam] by (simp add: q g_def)
    qed
    have c: "fdiv w1 t < lit \<and> lit \<le> fdiv w2 t \<and> fdiv w1 t < fsub 1 (fexp (- lit))
        \<longrightarrow> p1 < p2"
    proof
      assume x: "fdiv w1 t < lit \<and> lit \<le> fdiv w2 t \<and> fdiv w1 t < fsub 1 (fexp (- lit))"
      then have "fsub 1 (fexp (- lit)) \<le> fsub 1 (fexp (- fdiv w2 t))"
        using gm [of lit "fdiv w2 t"] by simp
      with x have "fdiv w1 t < fsub 1 (fexp (- fdiv w2 t))" by simp
      with x show "p1 < p2" by (simp add: q g_def)
    qed
    from lam a b c show ?thesis by blast
  qed
  from zero r deg main show ?thesis
    unfolding P_def t_def Let_def by blast
qed

text \<open>
  An instance at the exact operations, on the two sides of the boundary: hashrate
  \<open>2^32\<close> and difficulty 1 (expected time one second), windows \<open>0.9999994 * 10^-6\<close> and
  \<open>10^-6\<close>.
\<close>

theorem prob_in_window_monotone_witness:
  "prob_in_window_fl (/) exp (-) (1 / 10 ^ 6) (2 ^ 32) (Some 1) 0 = Inr 0
   \<and> prob_in_window_fl (/) exp (-) (1 / 10 ^ 6) (2 ^ 32) (Some 1) (9999994 / 10 ^ 13)
       = Inr (9999994 / 10 ^ 13)
   \<and> prob_in_window_fl (/) exp (-) (1 / 10 ^ 6) (2 ^ 32) (Some 1) (1 / 10 ^ 6)
       = Inr (1 - exp (- (1 / 10 ^ 6)))
   \<and> (9999994 / 10 ^ 13 :: real) < 1 - exp (- (1 / 10 ^ 6))"
proof -
  have a: "\<forall>t :: real. 0 < t \<longrightarrow> 0 / t = 0" by simp
  have b: "\<forall>x y t :: real. 0 < t \<and> x \<le> y \<longrightarrow> x / t \<le> y / t"
    by (simp add: divide_right_mono)
  have c: "\<forall>x y :: real. x \<le> y \<and> y \<le> 0 \<longrightarrow> exp x \<le> exp y" by simp
  have e: "\<forall>x y :: real. x \<le> y \<longrightarrow> 1 - y \<le> 1 - x" by simp
  have f: "(0 :: real) < 1 / 10 ^ 6" "(0 :: real) < 2 ^ 32" "(0 :: real) < 1"
    "(0 :: real) \<le> 9999994 / 10 ^ 13" "(9999994 / 10 ^ 13 :: real) \<le> 1 / 10 ^ 6"
    by simp_all
  note th = prob_in_window_monotone [of "(/)" exp "(-)" "1 / 10 ^ 6" "2 ^ 32" 1
      "9999994 / 10 ^ 13" "1 / 10 ^ 6", OF a b c e f]
  have t: "(1 * 2 ^ 32 / 2 ^ 32 :: real) = 1" by simp
  from th obtain p1 p2 where
    p: "prob_in_window_fl (/) exp (-) (1 / 10 ^ 6) (2 ^ 32) (Some 1) 0 = Inr 0"
      "prob_in_window_fl (/) exp (-) (1 / 10 ^ 6) (2 ^ 32) (Some 1) (9999994 / 10 ^ 13) = Inr p1"
      "prob_in_window_fl (/) exp (-) (1 / 10 ^ 6) (2 ^ 32) (Some 1) (1 / 10 ^ 6) = Inr p2"
    and q: "(9999994 / 10 ^ 13 :: real) < 1 / 10 ^ 6 \<and> (1 / 10 ^ 6 :: real) \<le> 1 / 10 ^ 6
        \<and> (9999994 / 10 ^ 13 :: real) < 1 - exp (- (1 / 10 ^ 6)) \<longrightarrow> p1 < p2"
    unfolding Let_def t by auto
  have v: "p1 = 9999994 / 10 ^ 13" "p2 = 1 - exp (- (1 / 10 ^ 6))"
    using p(2,3) by (simp_all add: prob_in_window_fl_pos)
  from q boundary_value_lower have "p1 < p2" by simp
  with p v show ?thesis by simp
qed

text \<open>
  C3 as stated fails across the branch boundary. With an expected time of one second,
  the window \<open>0.9999999 * 10^-6\<close> is shorter than the window \<open>10^-6\<close>, but its
  probability (the window itself, by the linear branch) is larger than
  \<open>1 - exp (- 10^-6)\<close>, the probability of the longer window.
\<close>

theorem prob_in_window_drops_at_boundary:
  "prob_in_window (2 ^ 32) (Some 1) (9999999 / 10 ^ 13) = Inr (9999999 / 10 ^ 13)
   \<and> prob_in_window (2 ^ 32) (Some 1) (1 / 10 ^ 6) = Inr (1 - exp (- (1 / 10 ^ 6)))
   \<and> (9999999 / 10 ^ 13 :: real) < 1 / 10 ^ 6
   \<and> 1 - exp (- (1 / 10 ^ 6 :: real)) < 9999999 / 10 ^ 13"
  using boundary_drop by (simp add: prob_in_window_Some)

subsection \<open>The sliding window of the graph\<close>

lemma graph_data_step:
  "graph_data (miner_loop_step cfg hps src u now st) =
     filter (\<lambda>p. now - 300 \<le> fst p) (graph_data st)
       @ [(now, snd (last (graph_data (miner_loop_step cfg hps src u now st))))]"
  by (simp add: miner_loop_step_def Let_def case_prod_unfold)

text \<open>
  C6. After an iteration of the miner loop at time \<open>now\<close>, every point of the series has
  a timestamp of at least \<open>now - 300\<close>; the cutoff is inclusive, so an old point at
  exactly \<open>now - 300\<close> (like every old point not older than that) is kept, and every
  older point is dropped: the series is the old one filtered, followed by the new point.
  Iterations at the times 0, 100, 200 and 400 leave exactly the points of the times 100,
  200 and 400.
\<close>

theorem sliding_window_retains_last_300s:
  "(\<forall>p \<in> set (graph_data (miner_loop_step cfg hps src u now st)). now - 300 \<le> fst p)
   \<and> (\<forall>p \<in> set (graph_data st).
         now - 300 \<le> fst p \<longrightarrow> p \<in> set (graph_data (miner_loop_step cfg hps src u now st)))
   \<and> (\<forall>p \<in> set (graph_data st).
         fst p < now - 300 \<longrightarrow> p \<notin> set (graph_data (miner_loop_step cfg hps src u now st)))
   \<and> (\<exists>g. graph_data (miner_loop_step cfg hps src u now st)
            = filter (\<lambda>p. now - 300 \<le> fst p) (graph_data st) @ [(now, g)])
   \<and> map fst (graph_data (miner_loop cfg
        [(1000, ''cpuminer'', 0, 0), (1000, ''cpuminer'', 0, 100),
         (1000, ''cpuminer'', 0, 200), (1000, ''cpuminer'', 0, 400)]
        (st\<lparr>graph_data := []\<rparr>))) = [100, 200, 400]"
proof (intro conjI)
  let ?st' = "miner_loop_step cfg hps src u now st"
  obtain g where g: "graph_data ?st' = filter (\<lambda>p. now - 300 \<le> fst p) (graph_data st) @ [(now, g)]"
    using graph_data_step by blast
  show "\<forall>p \<in> set (graph_data ?st'). now - 300 \<le> fst p" by (auto simp: g)
  show "\<forall>p \<in> set (graph_data st). now - 300 \<le> fst p \<longrightarrow> p \<in> set (graph_data ?st')"
    by (auto simp: g)
  show "\<forall>p \<in> set (graph_data st). fst p < now - 300 \<longrightarrow> p \<notin> set (graph_data ?st')"
    by (auto simp: g)
  show "\<exists>g. graph_data ?st' = filter (\<lambda>p. now - 300 \<le> fst p) (graph_data st) @ [(now, g)]"
    using g by blast
  show "map fst (graph_data (miner_loop cfg
        [(1000, ''cpuminer'', 0, 0), (1000, ''cpuminer'', 0, 100),
         (1000, ''cpuminer'', 0, 200), (1000, ''cpuminer'', 0, 400)]
        (st\<lparr>graph_data := []\<rparr>))) = [100, 200, 400]"
    by (simp add: miner_loop_step_def)
qed

text \<open>
  An instance: the series holds points of the times 0, 100 and 200, and the iteration
  runs at time 400 with a measured hashrate of 1000.
\<close>

theorem sliding_window_retains_last_300s_witness:
  "graph_data (miner_loop_step \<lparr>mock_khs_base = 250, show_odds_when_zero = True, graph_jitter_pct = 6 / 100\<rparr>
       1000 ''cpuminer'' 0 400
       \<lparr>graph_data = [(0, 7), (100, 8), (200, 9)], miner_hps = 0, miner_src = ''Mock'',
        difficulty = None, height = None, net_hps = None\<rparr>)
     = [(100, 8), (200, 9), (400, 1000)]
   \<and> (100, 8) \<in> set (graph_data (miner_loop_step \<lparr>mock_khs_base = 250, show_odds_when_zero = True, graph_jitter_pct = 6 / 100\<rparr>
       1000 ''cpuminer'' 0 400
       \<lparr>graph_data = [(0, 7), (100, 8), (200, 9)], miner_hps = 0, miner_src = ''Mock'',
        difficulty = None, height = None, net_hps = None\<rparr>))
   \<and> (0, 7) \<notin> set (graph_data (miner_loop_step \<lparr>mock_khs_base = 250, show_odds_when_zero = True, graph_jitter_pct = 6 / 100\<rparr>
       1000 ''cpuminer'' 0 400
       \<lparr>graph_data = [(0, 7), (100, 8), (200, 9)], miner_hps = 0, miner_src = ''Mock'',
        difficulty = None, height = None, net_hps = None\<rparr>))"
  using sliding_window_retains_last_300s [of
       "\<lparr>mock_khs_base = 250, show_odds_when_zero = True, graph_jitter_pct = 6 / 100\<rparr>"
       1000 "''cpuminer''" 0 400
       "\<lparr>graph_data = [(0, 7), (100, 8), (200, 9)], miner_hps = 0, miner_src = ''Mock'',
        difficulty = None, height = None, net_hps = None\<rparr>"]
  by (simp add: miner_loop_step_def)

subsection \<open>The cached network statistics\<close>

text \<open>
  C7. In an iteration of the network loop, an absent difficulty leaves the stored
  difficulty and the network hashrate derived from it as they were, and an absent height
  leaves the stored height as it was. A stored value changes only to the value that was
  just fetched. The other fields of the state are not written.
\<close>

theorem network_loop_keeps_cached_values:
  "(d = None \<longrightarrow> difficulty (network_loop_step (d, h, msg) st) = difficulty st
                \<and> net_hps (network_loop_step (d, h, msg) st) = net_hps st)
   \<and> (h = None \<longrightarrow> height (network_loop_step (d, h, msg) st) = height st)
   \<and> (difficulty (network_loop_step (d, h, msg) st) \<noteq> difficulty st
        \<longrightarrow> d \<noteq> None \<and> difficulty (network_loop_step (d, h, msg) st) = d)
   \<and> (net_hps (network_loop_step (d, h, msg) st) \<noteq> net_hps st
        \<longrightarrow> (\<exists>dv. d = Some dv \<and> net_hps (network_loop_step (d, h, msg) st) = Some (net_hps_from_diff dv)))
   \<and> (height (network_loop_step (d, h, msg) st) \<noteq> height st
        \<longrightarrow> h \<noteq> None \<and> height (network_loop_step (d, h, msg) st) = h)
   \<and> graph_data (network_loop_step (d, h, msg) st) = graph_data st
   \<and> miner_hps (network_loop_step (d, h, msg) st) = miner_hps st
   \<and> miner_src (network_loop_step (d, h, msg) st) = miner_src st"
  by (cases d; cases h) (simp_all add: network_loop_step_def)

text \<open>An instance: both requests failed, and difficulty 5 and height 800000 stay.\<close>

theorem network_loop_keeps_cached_values_witness:
  "difficulty (network_loop_step (None, None, ''difficulty err: timeout'')
      \<lparr>graph_data = [], miner_hps = 0, miner_src = ''Mock'',
       difficulty = Some 5, height = Some 800000, net_hps = Some (net_hps_from_diff 5)\<rparr>) = Some 5
   \<and> net_hps (network_loop_step (None, None, ''difficulty err: timeout'')
      \<lparr>graph_data = [], miner_hps = 0, miner_src = ''Mock'',
       difficulty = Some 5, height = Some 800000, net_hps = Some (net_hps_from_diff 5)\<rparr>)
       = Some (net_hps_from_diff 5)
   \<and> height (network_loop_step (None, None, ''difficulty err: timeout'')
      \<lparr>graph_data = [], miner_hps = 0, miner_src = ''Mock'',
       difficulty = Some 5, height = Some 800000, net_hps = Some (net_hps_from_diff 5)\<rparr>)
       = Some 800000"
  using network_loop_keeps_cached_values [of None None "''difficulty err: timeout''"
      "\<lparr>graph_data = [], miner_hps = 0, miner_src = ''Mock'',
       difficulty = Some 5, height = Some 800000, net_hps = Some (net_hps_from_diff 5)\<rparr>"]
  by simp

subsection \<open>The routes of the web handler\<close>

text \<open>
  C8, as the code has it. The claim sends every path other than \<^verbatim>\<open>/\<close> and
  \<^verbatim>\<open>/stats.json\<close> to 404. The handler also serves the dashboard for every path that
  starts with \<^verbatim>\<open>/index\<close>. So: the path \<^verbatim>\<open>/\<close> and every path starting with \<^verbatim>\<open>/index\<close>
  yield status 200 with the dashboard page; the path \<^verbatim>\<open>/stats.json\<close> yields status 200
  with the snapshot as body, the content type \<^verbatim>\<open>application/json; charset=utf-8\<close> and
  the length of the snapshot as content length; every other path yields status 404 with
  no header of the handler's and an empty body.
\<close>

theorem do_GET_routes:
  "(path = ''/'' \<or> startswith path ''/index''
      \<longrightarrow> status (do_GET page snapshot path) = 200
          \<and> body (do_GET page snapshot path) = page
          \<and> map_of (headers (do_GET page snapshot path)) ''Content-Type''
              = Some ''text/html; charset=utf-8'')
   \<and> (path = ''/stats.json''
      \<longrightarrow> status (do_GET page snapshot path) = 200
          \<and> body (do_GET page snapshot path) = snapshot
          \<and> map_of (headers (do_GET page snapshot path)) ''Content-Type''
              = Some ''application/json; charset=utf-8''
          \<and> map_of (headers (do_GET page snapshot path)) ''Content-Length''
              = Some (str_nat (length snapshot)))
   \<and> (path \<noteq> ''/'' \<and> \<not> startswith path ''/index'' \<and> path \<noteq> ''/stats.json''
      \<longrightarrow> status (do_GET page snapshot path) = 404
          \<and> body (do_GET page snapshot path) = []
          \<and> headers (do_GET page snapshot path) = [])"
  by (auto simp: do_GET_def startswith_def)

text \<open>Instances: the paths \<^verbatim>\<open>/\<close>, \<^verbatim>\<open>/stats.json\<close> and \<^verbatim>\<open>/favicon.ico\<close>.\<close>

theorem do_GET_routes_witness:
  "status (do_GET ''<!doctype html>'' ''{}'' ''/'') = 200
   \<and> body (do_GET ''<!doctype html>'' ''{}'' ''/'') = ''<!doctype html>''
   \<and> body (do_GET ''<!doctype html>'' ''{}'' ''/stats.json'') = ''{}''
   \<and> status (do_GET ''<!doctype html>'' ''{}'' ''/favicon.ico'') = 404
   \<and> body (do_GET ''<!doctype html>'' ''{}'' ''/favicon.ico'') = []"
  using do_GET_routes [of "''/''" "''<!doctype html>''" "''{}''"]
    do_GET_routes [of "''/stats.json''" "''<!doctype html>''" "''{}''"]
    do_GET_routes [of "''/favicon.ico''" "''<!doctype html>''" "''{}''"]
  by (simp add: startswith_def)

text \<open>
  C8 as stated fails at the path \<^verbatim>\<open>/index.html\<close>: it is neither \<^verbatim>\<open>/\<close> nor
  \<^verbatim>\<open>/stats.json\<close>, and the answer is the dashboard with status 200, not 404.
\<close>

theorem do_GET_index_prefix_is_dashboard:
  "''/index.html'' \<noteq> ''/'' \<and> ''/index.html'' \<noteq> ''/stats.json''
   \<and> status (do_GET ''<!doctype html>'' ''{}'' ''/index.html'') = 200
   \<and> body (do_GET ''<!doctype html>'' ''{}'' ''/index.html'') = ''<!doctype html>''"
  by (simp add: do_GET_def startswith_def)

subsection \<open>Fetching the network statistics: a failed difficulty request\<close>

lemma fetch_difficulty_failure:
  assumes "requests_present env"
    and "(case http_get env (api_difficulty env) of
            Inl e \<Rightarrow> Inl e | Inr reply \<Rightarrow> body_float env reply) = Inl e"
  shows "fetch_difficulty_and_height env
           = ((None, None, ''difficulty err: '' @ e), [api_difficulty env])"
  using assms by (simp add: fetch_difficulty_and_height_def)

text \<open>
  C1 does not hold of the code. The claim: when the difficulty request fails, the height
  request is still made, and only the difficulty is absent in the result. The code
  returns from the handler of the difficulty failure: below, the height endpoint would
  answer \<^verbatim>\<open>800000\<close>, the difficulty request times out, and the function returns an
  absent difficulty and an absent height, having requested the difficulty URL alone.
\<close>

theorem fetch_skips_height_after_difficulty_failure:
  "http_get
      \<lparr>requests_present = True,
       api_difficulty = ''https://blockchain.info/q/getdifficulty'',
       api_height = ''https://mempool.space/api/blocks/tip/height'',
       http_get = (\<lambda>url. if url = ''https://mempool.space/api/blocks/tip/height''
                          then Inr ''800000'' else Inl ''timed out''),
       body_float = (\<lambda>b. Inl ''could not convert string to float''),
       body_int = (\<lambda>b. if b = ''800000'' then Inr 800000 else Inl ''invalid literal'')\<rparr>
      ''https://mempool.space/api/blocks/tip/height'' = Inr ''800000''
   \<and> fetch_difficulty_and_height
      \<lparr>requests_present = True,
       api_difficulty = ''https://blockchain.info/q/getdifficulty'',
       api_height = ''https://mempool.space/api/blocks/tip/height'',
       http_get = (\<lambda>url. if url = ''https://mempool.space/api/blocks/tip/height''
                          then Inr ''800000'' else Inl ''timed out''),
       body_float = (\<lambda>b. Inl ''could not convert string to float''),
       body_int = (\<lambda>b. if b = ''800000'' then Inr 800000 else Inl ''invalid literal'')\<rparr>
     = ((None, None, ''difficulty err: timed out''),
        [''https://blockchain.info/q/getdifficulty''])"
  by (simp add: fetch_difficulty_and_height_def)

subsection \<open>The BFGMiner API adapter: which key gives the rate\<close>

lemma float_of_digits_abc: "float_of_digits ''abc'' = Inl ValueError"
  by (simp add: float_of_digits_def)

lemma float_of_digits_5: "float_of_digits ''5'' = Inr 5"
  by (simp add: float_of_digits_def)

text \<open>
  C2 does not hold of the code. The claim: the poll never raises. The conversions of
  the bare keys \<^verbatim>\<open>KHS\<close> and \<^verbatim>\<open>GHS\<close> stand outside every \<^verbatim>\<open>try\<close>: for the response
  \<^verbatim>\<open>{"KHS": "abc"}\<close> the poll raises \<^verbatim>\<open>ValueError\<close>.
\<close>

theorem bare_KHS_unparseable_raises:
  "get_bfgminer_hashrate_hps float_of_digits (Some [''KHS'' \<mapsto> ''abc'']) = Inl ValueError"
  by (simp add: get_bfgminer_hashrate_hps_def priority_keys_def float_of_digits_abc)

lemma scan_keys_skip:
  "list_all (\<lambda>k. \<not> usable to_float resp k) earlier \<Longrightarrow>
   scan_keys to_float resp (earlier @ ks) = scan_keys to_float resp ks"
  by (induction earlier) (auto simp: usable_def split: option.splits sum.splits)

lemma scan_keys_hit:
  "resp key = Some x \<Longrightarrow> to_float x = Inr v \<Longrightarrow>
   scan_keys to_float resp (key # ks) = Some (v * factor key, ''BFGMiner API'')"
  by simp

lemma scan_keys_none:
  "list_all (\<lambda>k. \<not> usable to_float resp k) ks \<Longrightarrow> scan_keys to_float resp ks = None"
  using scan_keys_skip [of to_float resp ks "[]"] by simp

lemma map_nonempty: "r k = Some x \<Longrightarrow> r \<noteq> Map.empty"
  by auto

text \<open>
  C5, as the code has it. The claim takes the rate from the first key of the priority
  list that is present. The loop skips a present key whose value \<^verbatim>\<open>float\<close> rejects, so
  the rate comes from the first usable key, one that is present with a value that is a
  number: if all keys before \<open>key\<close> in the priority list are unusable and \<open>key\<close> is
  present with the number \<open>v\<close>, the result is \<open>v * factor key\<close> with the label of the
  adapter, where the factor is \<open>10^6\<close> for the five \<^verbatim>\<open>MHS\<close> keys, \<open>10^9\<close> for \<^verbatim>\<open>GHS av\<close>
  and \<open>10^3\<close> for the two \<^verbatim>\<open>KHS\<close> keys. If no key of the list is usable, a bare \<^verbatim>\<open>KHS\<close>
  with the number \<open>v\<close> gives \<open>v * 10^3\<close>, and without a bare \<^verbatim>\<open>KHS\<close> a bare \<^verbatim>\<open>GHS\<close>
  with the number \<open>v\<close> gives \<open>v * 10^9\<close>. In particular a response with \<^verbatim>\<open>MHS 5s\<close>
  (a number \<open>v\<close>) and \<^verbatim>\<open>KHS av\<close>, and no usable \<^verbatim>\<open>MHS av\<close>, gives \<open>v * 10^6\<close>.
\<close>

theorem adapter_key_priority:
  "(priority_keys = earlier @ key # later
      \<and> list_all (\<lambda>k. \<not> usable to_float resp k) earlier
      \<and> resp key = Some x \<and> to_float x = Inr v
     \<longrightarrow> get_bfgminer_hashrate_hps to_float (Some resp)
           = Inr (v * factor key, ''BFGMiner API''))
   \<and> (list_all (\<lambda>k. \<not> usable to_float resp k) priority_keys
      \<and> resp ''KHS'' = Some x \<and> to_float x = Inr v
     \<longrightarrow> get_bfgminer_hashrate_hps to_float (Some resp) = Inr (v * 10 ^ 3, ''BFGMiner API''))
   \<and> (list_all (\<lambda>k. \<not> usable to_float resp k) priority_keys
      \<and> resp ''KHS'' = None \<and> resp ''GHS'' = Some x \<and> to_float x = Inr v
     \<longrightarrow> get_bfgminer_hashrate_hps to_float (Some resp) = Inr (v * 10 ^ 9, ''BFGMiner API''))
   \<and> map factor priority_keys
       = [10 ^ 6, 10 ^ 6, 10 ^ 6, 10 ^ 6, 10 ^ 6, 10 ^ 9, 10 ^ 3, 10 ^ 3]
   \<and> (\<not> usable to_float resp ''MHS av''
      \<and> resp ''MHS 5s'' = Some x \<and> to_float x = Inr v \<and> resp ''KHS av'' = Some y
     \<longrightarrow> get_bfgminer_hashrate_hps to_float (Some resp) = Inr (v * 10 ^ 6, ''BFGMiner API''))"
proof (intro conjI impI)
  assume a: "priority_keys = earlier @ key # later
      \<and> list_all (\<lambda>k. \<not> usable to_float resp k) earlier
      \<and> resp key = Some x \<and> to_float x = Inr v"
  then have pk: "priority_keys = earlier @ key # later"
    and e: "list_all (\<lambda>k. \<not> usable to_float resp k) earlier"
    and x: "resp key = Some x" "to_float x = Inr v"
    by blast+
  have "scan_keys to_float resp priority_keys = scan_keys to_float resp (key # later)"
    unfolding pk using e by (rule scan_keys_skip)
  also have "\<dots> = Some (v * factor key, ''BFGMiner API'')"
    using x by (rule scan_keys_hit)
  finally have "scan_keys to_float resp priority_keys = Some (v * factor key, ''BFGMiner API'')" .
  moreover have "resp \<noteq> Map.empty" using a map_nonempty by fast
  ultimately show "get_bfgminer_hashrate_hps to_float (Some resp)
           = Inr (v * factor key, ''BFGMiner API'')"
    by (simp add: get_bfgminer_hashrate_hps_def)
next
  assume a: "list_all (\<lambda>k. \<not> usable to_float resp k) priority_keys
      \<and> resp ''KHS'' = Some x \<and> to_float x = Inr v"
  then have "scan_keys to_float resp priority_keys = None" by (simp add: scan_keys_none)
  moreover have "resp \<noteq> Map.empty" using a map_nonempty by fast
  ultimately show "get_bfgminer_hashrate_hps to_float (Some resp) = Inr (v * 10 ^ 3, ''BFGMiner API'')"
    using a by (simp add: get_bfgminer_hashrate_hps_def)
next
  assume a: "list_all (\<lambda>k. \<not> usable to_float resp k) priority_keys
      \<and> resp ''KHS'' = None \<and> resp ''GHS'' = Some x \<and> to_float x = Inr v"
  then have "scan_keys to_float resp priority_keys = None" by (simp add: scan_keys_none)
  moreover have "resp \<noteq> Map.empty" using a map_nonempty by fast
  ultimately show "get_bfgminer_hashrate_hps to_float (Some resp) = Inr (v * 10 ^ 9, ''BFGMiner API'')"
    using a by (simp add: get_bfgminer_hashrate_hps_def)
next
  show "map factor priority_keys
       = [10 ^ 6, 10 ^ 6, 10 ^ 6, 10 ^ 6, 10 ^ 6, 10 ^ 9, 10 ^ 3, 10 ^ 3]"
    by (simp add: priority_keys_def factor_def startswith_def)
next
  assume a: "\<not> usable to_float resp ''MHS av''
      \<and> resp ''MHS 5s'' = Some x \<and> to_float x = Inr v \<and> resp ''KHS av'' = Some y"
  then have "scan_keys to_float resp priority_keys = Some (v * 10 ^ 6, ''BFGMiner API'')"
    by (auto simp: priority_keys_def usable_def factor_def startswith_def
        split: option.splits sum.splits)
  moreover have "resp \<noteq> Map.empty" using a map_nonempty by fast
  ultimately show "get_bfgminer_hashrate_hps to_float (Some resp) = Inr (v * 10 ^ 6, ''BFGMiner API'')"
    by (simp add: get_bfgminer_hashrate_hps_def)
qed

text \<open>An instance: the response \<^verbatim>\<open>{"MHS 5s": "7", "KHS av": "5"}\<close>.\<close>

theorem adapter_key_priority_witness:
  "get_bfgminer_hashrate_hps float_of_digits (Some [''MHS 5s'' \<mapsto> ''7'', ''KHS av'' \<mapsto> ''5''])
     = Inr (7 * 10 ^ 6, ''BFGMiner API'')"
  using adapter_key_priority [of "[''MHS av'']" "''MHS 5s''"
      "[''MHS 1m'', ''MHS 5m'', ''MHS 15m'', ''GHS av'', ''KHS 5s'', ''KHS av'']"
      float_of_digits "[''MHS 5s'' \<mapsto> ''7'', ''KHS av'' \<mapsto> ''5'']" "''7''" 7 "''5''"]
  by (simp add: priority_keys_def usable_def float_of_digits_def factor_def startswith_def)

text \<open>
  C5 as stated fails where the first present key has a value that is not a number: in
  \<^verbatim>\<open>{"MHS av": "abc", "KHS av": "5"}\<close> the first present key of the list is \<^verbatim>\<open>MHS av\<close>,
  and the rate is taken from \<^verbatim>\<open>KHS av\<close>.
\<close>

theorem adapter_skips_unparseable_first_key:
  "hd priority_keys = ''MHS av''
   \<and> [''MHS av'' \<mapsto> ''abc'', ''KHS av'' \<mapsto> ''5''] ''MHS av'' = Some ''abc''
   \<and> float_of_digits ''abc'' = Inl ValueError
   \<and> get_bfgminer_hashrate_hps float_of_digits (Some [''MHS av'' \<mapsto> ''abc'', ''KHS av'' \<mapsto> ''5''])
       = Inr (5 * 10 ^ 3, ''BFGMiner API'')"
  by (simp add: get_bfgminer_hashrate_hps_def priority_keys_def float_of_digits_abc
      float_of_digits_5 factor_def startswith_def)

subsection \<open>The format of a duration\<close>

lemma digit_char_digit: "d < 10 \<Longrightarrow> digit_char d \<in> set ''0123456789''"
  unfolding digit_char_def by (rule nth_mem) simp

lemma str_nat_digits: "set (str_nat n) \<subseteq> set ''0123456789''"
proof (induction n rule: str_nat.induct)
  case (1 n)
  show ?case
  proof (cases "n < 10")
    case True
    then show ?thesis using digit_char_digit [of n] by (subst str_nat.simps) simp
  next
    case False
    have "n mod 10 < 10" by simp
    then have "digit_char (n mod 10) \<in> set ''0123456789''" by (rule digit_char_digit)
    with False 1 show ?thesis by (subst str_nat.simps) simp
  qed
qed

lemma str_nat_length_small: "n < 1000 \<Longrightarrow> 1 \<le> length (str_nat n) \<and> length (str_nat n) \<le> 3"
proof -
  assume n: "n < 1000"
  have a: "n div 10 < 10 \<Longrightarrow> n div 10 div 10 = 0" by simp
  show ?thesis
    using n by (simp add: str_nat.simps [of n] str_nat.simps [of "n div 10"]
        str_nat.simps [of "n div 10 div 10"])
qed

lemma str_nat_split3:
  assumes "1000 \<le> n"
  shows "str_nat n = str_nat (n div 1000) @ pad3 (n mod 1000)"
proof -
  have a: "\<not> n < 10" "\<not> n div 10 < 10" "\<not> n div 10 div 10 < 10" using assms by simp_all
  have b1: "n div 10 div 10 div 10 = n div 1000"
    by (simp add: div_mult2_eq [symmetric])
  have "n mod (100 * 10) = 100 * (n div 100 mod 10) + n mod 100" by (rule mod_mult2_eq)
  then have "n mod 1000 div 100 = n div 100 mod 10" by simp
  then have b2: "n mod 1000 div 100 = n div 10 div 10 mod 10"
    by (simp add: div_mult2_eq [symmetric])
  have "n mod (10 * 100) = 10 * (n div 10 mod 100) + n mod 10" by (rule mod_mult2_eq)
  then have "n mod 1000 div 10 = n div 10 mod 100" by simp
  then have b3: "n mod 1000 div 10 mod 10 = n div 10 mod 10"
    by (simp add: mod_mod_cancel)
  have b4: "n mod 1000 mod 10 = n mod 10"
    by (simp add: mod_mod_cancel)
  have "str_nat n = str_nat (n div 10) @ [digit_char (n mod 10)]"
    using a(1) by (subst str_nat.simps) simp
  also have "str_nat (n div 10) = str_nat (n div 10 div 10) @ [digit_char (n div 10 mod 10)]"
    using a(2) by (subst str_nat.simps) simp
  also have "str_nat (n div 10 div 10) =
      str_nat (n div 10 div 10 div 10) @ [digit_char (n div 10 div 10 mod 10)]"
    using a(3) by (subst str_nat.simps) simp
  finally show ?thesis
    by (simp only: pad3_def b1 b2 b3 b4 append_assoc append_Cons append_Nil)
qed

lemma replace_char_digits:
  "set s \<subseteq> set ''0123456789'' \<Longrightarrow> replace_char (CHR '','') (CHR ''.'') s = s"
  unfolding replace_char_def by (induction s) auto

lemma pad3_length: "length (pad3 k) = 3"
  by (simp add: pad3_def)

lemma join_snoc: "gs \<noteq> [] \<Longrightarrow> join sep (gs @ [g]) = join sep gs @ sep @ g"
  by (induction sep gs rule: join.induct) auto

lemma replace_char_append:
  "replace_char a b (s @ t) = replace_char a b s @ replace_char a b t"
  by (simp add: replace_char_def)

lemma fmt_comma_groups:
  "\<exists>gs. replace_char (CHR '','') (CHR ''.'') (fmt_comma n) = join ''.'' gs
        \<and> concat gs = str_nat n \<and> gs \<noteq> []
        \<and> 1 \<le> length (hd gs) \<and> length (hd gs) \<le> 3
        \<and> list_all (\<lambda>g. length g = 3) (tl gs)"
proof (induction n rule: fmt_comma.induct)
  case (1 n)
  show ?case
  proof (cases "n < 1000")
    case True
    then have "fmt_comma n = str_nat n" by (subst fmt_comma.simps) simp
    moreover have "replace_char (CHR '','') (CHR ''.'') (str_nat n) = str_nat n"
      by (rule replace_char_digits) (rule str_nat_digits)
    ultimately have "replace_char (CHR '','') (CHR ''.'') (fmt_comma n) = join ''.'' [str_nat n]"
      by simp
    with str_nat_length_small [OF True] show ?thesis
      by (intro exI [of _ "[str_nat n]"]) simp
  next
    case False
    with 1 obtain gs where gs:
      "replace_char (CHR '','') (CHR ''.'') (fmt_comma (n div 1000)) = join ''.'' gs"
      "concat gs = str_nat (n div 1000)" "gs \<noteq> []"
      "1 \<le> length (hd gs)" "length (hd gs) \<le> 3" "list_all (\<lambda>g. length g = 3) (tl gs)"
      by blast
    let ?g = "pad3 (n mod 1000)"
    have g: "replace_char (CHR '','') (CHR ''.'') ?g = ?g"
      using str_nat_split3 [of n] str_nat_digits [of n] False
      by (intro replace_char_digits) auto
    from False have "fmt_comma n = fmt_comma (n div 1000) @ '','' @ ?g"
      by (subst fmt_comma.simps) simp
    moreover have "replace_char (CHR '','') (CHR ''.'') '','' = ''.''"
      by (simp add: replace_char_def)
    ultimately have "replace_char (CHR '','') (CHR ''.'') (fmt_comma n) = join ''.'' gs @ ''.'' @ ?g"
      by (simp only: replace_char_append gs(1) g)
    also have "\<dots> = join ''.'' (gs @ [?g])" using gs(3) by (simp add: join_snoc)
    finally have a: "replace_char (CHR '','') (CHR ''.'') (fmt_comma n) = join ''.'' (gs @ [?g])" .
    have b: "concat (gs @ [?g]) = str_nat n"
      using False by (simp add: gs(2) str_nat_split3)
    have c: "hd (gs @ [?g]) = hd gs" "tl (gs @ [?g]) = tl gs @ [?g]" using gs(3) by simp_all
    show ?thesis
      using a b c gs(3-6) by (intro exI [of _ "gs @ [?g]"]) (simp add: pad3_length)
  qed
qed


lemma take3_snoc:
  "take 3 (xs @ [x]) = (if length (take 3 xs) < 3 then take 3 xs @ [x] else take 3 xs)"
  by (cases "length xs < 3") (simp_all add: min_def)

lemma add_part_take:
  assumes "parts = take 3 (map (\<lambda>(v, u). str_int v @ [u]) (filter (\<lambda>(v, u). v \<noteq> 0) cs))"
  shows "add_part v u parts
           = take 3 (map (\<lambda>(v, u). str_int v @ [u]) (filter (\<lambda>(v, u). v \<noteq> 0) (cs @ [(v, u)])))"
proof (cases "v = 0")
  case True
  then show ?thesis by (simp add: add_part_def assms)
next
  case False
  then show ?thesis by (simp add: add_part_def assms take3_snoc)
qed

lemma floordiv_int:
  "0 < m \<Longrightarrow> floordiv x (of_int m) = \<lfloor>x\<rfloor> div m"
  unfolding floordiv_def by (rule floor_divide_real_eq_div) simp

lemma floor_sub_mult:
  fixes x :: real and m q :: int
  shows "\<lfloor>x - of_int (\<lfloor>x\<rfloor> div m * m)\<rfloor> = \<lfloor>x\<rfloor> mod m"
  by (simp only: floor_diff_of_int minus_div_mult_eq_mod)

lemma duration_components:
  fixes s :: real
  defines "n \<equiv> \<lfloor>s\<rfloor>"
  defines "years \<equiv> floordiv s (365 * 86400)"
  defines "s1 \<equiv> s - of_int (years * 365 * 86400)"
  defines "days \<equiv> floordiv s1 86400"
  defines "s2 \<equiv> s1 - of_int (days * 86400)"
  defines "hours \<equiv> floordiv s2 3600"
  defines "s3 \<equiv> s2 - of_int (hours * 3600)"
  defines "minutes \<equiv> floordiv s3 60"
  defines "sec \<equiv> py_int (s3 - of_int (minutes * 60))"
  shows "years = n div 31536000" and "days = n mod 31536000 div 86400"
    and "hours = n mod 86400 div 3600" and "minutes = n mod 3600 div 60"
    and "sec = n mod 60"
proof -
  have y: "years = n div 31536000"
    using floordiv_int [of 31536000 s] by (simp add: years_def n_def)
  have "s1 = s - of_int (\<lfloor>s\<rfloor> div 31536000 * 31536000)"
    by (simp add: s1_def y n_def)
  then have f1: "\<lfloor>s1\<rfloor> = n mod 31536000"
    by (simp only: floor_sub_mult n_def)
  have d: "days = n mod 31536000 div 86400"
    using floordiv_int [of 86400 s1] by (simp add: days_def f1)
  have "s2 = s1 - of_int (\<lfloor>s1\<rfloor> div 86400 * 86400)"
    by (simp add: s2_def d f1)
  then have "\<lfloor>s2\<rfloor> = \<lfloor>s1\<rfloor> mod 86400" by (simp only: floor_sub_mult)
  also have "\<dots> = n mod 86400" unfolding f1 by (rule mod_mod_cancel) simp
  finally have f2: "\<lfloor>s2\<rfloor> = n mod 86400" .
  have h: "hours = n mod 86400 div 3600"
    using floordiv_int [of 3600 s2] by (simp add: hours_def f2)
  have "s3 = s2 - of_int (\<lfloor>s2\<rfloor> div 3600 * 3600)"
    by (simp add: s3_def h f2)
  then have "\<lfloor>s3\<rfloor> = \<lfloor>s2\<rfloor> mod 3600" by (simp only: floor_sub_mult)
  also have "\<dots> = n mod 3600" unfolding f2 by (rule mod_mod_cancel) simp
  finally have f3: "\<lfloor>s3\<rfloor> = n mod 3600" .
  have m: "minutes = n mod 3600 div 60"
    using floordiv_int [of 60 s3] by (simp add: minutes_def f3)
  define r where "r = s3 - of_int (minutes * 60)"
  have "r = s3 - of_int (\<lfloor>s3\<rfloor> div 60 * 60)" by (simp add: r_def m f3)
  then have "\<lfloor>r\<rfloor> = \<lfloor>s3\<rfloor> mod 60" by (simp only: floor_sub_mult)
  also have "\<dots> = n mod 60" unfolding f3 by (rule mod_mod_cancel) simp
  finally have fr: "\<lfloor>r\<rfloor> = n mod 60" .
  have "0 \<le> \<lfloor>r\<rfloor>" unfolding fr by simp
  then have "0 \<le> r" by simp
  then have "py_int r = \<lfloor>r\<rfloor>" by (simp add: py_int_def)
  moreover have "sec = py_int r" by (simp only: sec_def r_def)
  ultimately have c: "sec = n mod 60" by (simp only: fr)
  show "years = n div 31536000" by (rule y)
  show "days = n mod 31536000 div 86400" by (rule d)
  show "hours = n mod 86400 div 3600" by (rule h)
  show "minutes = n mod 3600 div 60" by (rule m)
  show "sec = n mod 60" by (rule c)
qed


lemma human_duration_finite_years:
  assumes "10000 \<le> \<lfloor>s\<rfloor> div 31536000"
  shows "human_duration_finite s
           = replace_char (CHR '','') (CHR ''.'') (fmt_comma (nat (\<lfloor>s\<rfloor> div 31536000)))
               @ '' years''"
proof -
  have "floordiv s (365 * 86400) = \<lfloor>s\<rfloor> div 31536000" by (rule duration_components(1))
  with assms show ?thesis by (simp add: human_duration_finite_def Let_def)
qed

lemma human_duration_finite_parts:
  assumes "\<lfloor>s\<rfloor> div 31536000 < 10000"
  shows "human_duration_finite s =
    (let n = \<lfloor>s\<rfloor>;
         shown = take 3 (filter (\<lambda>(v, u). v \<noteq> 0)
           [(n div 31536000, CHR ''y''), (n mod 31536000 div 86400, CHR ''d''),
            (n mod 86400 div 3600, CHR ''h''), (n mod 3600 div 60, CHR ''m''),
            (n mod 60, CHR ''s'')])
     in if shown = [] then ''0s'' else join '' '' (map (\<lambda>(v, u). str_int v @ [u]) shown))"
proof -
  define n where "n = \<lfloor>s\<rfloor>"
  define years where "years = floordiv s (365 * 86400)"
  define s1 where "s1 = s - of_int (years * 365 * 86400)"
  define days where "days = floordiv s1 86400"
  define s2 where "s2 = s1 - of_int (days * 86400)"
  define hours where "hours = floordiv s2 3600"
  define s3 where "s3 = s2 - of_int (hours * 3600)"
  define minutes where "minutes = floordiv s3 60"
  define sec where "sec = py_int (s3 - of_int (minutes * 60))"
  note defs = years_def s1_def days_def s2_def hours_def s3_def minutes_def sec_def
  have c: "years = n div 31536000" "days = n mod 31536000 div 86400"
    "hours = n mod 86400 div 3600" "minutes = n mod 3600 div 60" "sec = n mod 60"
    unfolding defs n_def by (rule duration_components)+
  define render :: "int \<times> char \<Rightarrow> string" where "render = (\<lambda>(v, u). str_int v @ [u])"
  define nz :: "int \<times> char \<Rightarrow> bool" where "nz = (\<lambda>(v, u). v \<noteq> 0)"
  define p0 where "p0 = (if years \<noteq> 0 then [str_int years @ ''y''] else [])"
  define p1 where "p1 = add_part days (CHR ''d'') p0"
  define p2 where "p2 = add_part hours (CHR ''h'') p1"
  define p3 where "p3 = add_part minutes (CHR ''m'') p2"
  define p4 where "p4 = add_part sec (CHR ''s'') p3"
  have "\<not> 10000 \<le> years" using assms by (simp add: c n_def)
  then have hd: "human_duration_finite s = (if p4 \<noteq> [] then join '' '' p4 else ''0s'')"
    unfolding human_duration_finite_def Let_def p4_def p3_def p2_def p1_def p0_def defs
    by (simp only: if_False)
  have q0: "p0 = take 3 (map render (filter nz [(years, CHR ''y'')]))"
    by (simp add: p0_def render_def nz_def)
  have q1: "p1 = take 3 (map render (filter nz ([(years, CHR ''y'')] @ [(days, CHR ''d'')])))"
    unfolding p1_def render_def nz_def
    by (rule add_part_take) (simp only: q0 render_def nz_def)
  have q2: "p2 = take 3 (map render (filter nz
      (([(years, CHR ''y'')] @ [(days, CHR ''d'')]) @ [(hours, CHR ''h'')])))"
    unfolding p2_def render_def nz_def
    by (rule add_part_take) (simp only: q1 render_def nz_def)
  have q3: "p3 = take 3 (map render (filter nz
      ((([(years, CHR ''y'')] @ [(days, CHR ''d'')]) @ [(hours, CHR ''h'')])
        @ [(minutes, CHR ''m'')])))"
    unfolding p3_def render_def nz_def
    by (rule add_part_take) (simp only: q2 render_def nz_def)
  have q4: "p4 = take 3 (map render (filter nz
      (((([(years, CHR ''y'')] @ [(days, CHR ''d'')]) @ [(hours, CHR ''h'')])
        @ [(minutes, CHR ''m'')]) @ [(sec, CHR ''s'')])))"
    unfolding p4_def render_def nz_def
    by (rule add_part_take) (simp only: q3 render_def nz_def)
  have q: "p4 = map render (take 3 (filter nz
      [(years, CHR ''y''), (days, CHR ''d''), (hours, CHR ''h''), (minutes, CHR ''m''),
       (sec, CHR ''s'')]))"
    unfolding q4 by (simp only: append.simps take_map)
  show ?thesis
    unfolding hd q c Let_def n_def [symmetric] render_def [symmetric] nz_def [symmetric]
    by (simp only: map_is_Nil_conv if_not_P cong: if_cong) auto
qed

text \<open>
  Claim C9. \<open>human_duration\<close> returns the em-dash placeholder for \<^verbatim>\<open>None\<close>, for 0 and for
  the non-finite values. For a finite positive number of seconds whose whole-year count
  (the floor of the seconds, divided by 31536000) is at least 10000, the result is that
  count written in decimal digits, cut into groups separated by \<^verbatim>\<open>.\<close> (a first group of
  one to three digits, every other group of three), followed by \<^verbatim>\<open> years\<close> and nothing
  else. Otherwise the result lists the first three non-zero components among years,
  days, hours, minutes and seconds, in that order, each followed by its unit letter and
  joined by spaces; it is \<^verbatim>\<open>0s\<close> when every component is zero.
\<close>

theorem human_duration_format:
  "human_duration None = em_dash
   \<and> human_duration (Some (Fin 0)) = em_dash
   \<and> human_duration (Some PInf) = em_dash
   \<and> human_duration (Some NInf) = em_dash
   \<and> human_duration (Some NaN) = em_dash
   \<and> (0 < s \<and> 10000 \<le> \<lfloor>s\<rfloor> div 31536000 \<longrightarrow>
        (\<exists>gs. human_duration (Some (Fin s)) = join ''.'' gs @ '' years''
           \<and> concat gs = str_nat (nat (\<lfloor>s\<rfloor> div 31536000))
           \<and> set (concat gs) \<subseteq> set ''0123456789''
           \<and> gs \<noteq> [] \<and> 1 \<le> length (hd gs) \<and> length (hd gs) \<le> 3
           \<and> list_all (\<lambda>g. length g = 3) (tl gs)))
   \<and> (0 < s \<and> \<lfloor>s\<rfloor> div 31536000 < 10000 \<longrightarrow>
        human_duration (Some (Fin s)) =
          (let n = \<lfloor>s\<rfloor>;
               shown = take 3 (filter (\<lambda>(v, u). v \<noteq> 0)
                 [(n div 31536000, CHR ''y''), (n mod 31536000 div 86400, CHR ''d''),
                  (n mod 86400 div 3600, CHR ''h''), (n mod 3600 div 60, CHR ''m''),
                  (n mod 60, CHR ''s'')])
           in if shown = [] then ''0s''
              else join '' '' (map (\<lambda>(v, u). str_int v @ [u]) shown)))"
proof (intro conjI impI)
  show "human_duration None = em_dash" "human_duration (Some (Fin 0)) = em_dash"
    "human_duration (Some PInf) = em_dash" "human_duration (Some NInf) = em_dash"
    "human_duration (Some NaN) = em_dash"
    by simp_all
next
  assume a: "0 < s \<and> 10000 \<le> \<lfloor>s\<rfloor> div 31536000"
  let ?y = "nat (\<lfloor>s\<rfloor> div 31536000)"
  obtain gs where gs: "replace_char (CHR '','') (CHR ''.'') (fmt_comma ?y) = join ''.'' gs"
    "concat gs = str_nat ?y" "gs \<noteq> []" "1 \<le> length (hd gs)" "length (hd gs) \<le> 3"
    "list_all (\<lambda>g. length g = 3) (tl gs)"
    using fmt_comma_groups [of ?y] by blast
  from a have "human_duration (Some (Fin s)) = join ''.'' gs @ '' years''"
    by (simp add: human_duration_finite_years gs(1))
  moreover have "set (concat gs) \<subseteq> set ''0123456789''"
    unfolding gs(2) by (rule str_nat_digits)
  ultimately show "\<exists>gs. human_duration (Some (Fin s)) = join ''.'' gs @ '' years''
           \<and> concat gs = str_nat (nat (\<lfloor>s\<rfloor> div 31536000))
           \<and> set (concat gs) \<subseteq> set ''0123456789''
           \<and> gs \<noteq> [] \<and> 1 \<le> length (hd gs) \<and> length (hd gs) \<le> 3
           \<and> list_all (\<lambda>g. length g = 3) (tl gs)"
    using gs(2-6) by blast
next
  assume a: "0 < s \<and> \<lfloor>s\<rfloor> div 31536000 < 10000"
  then have "human_duration (Some (Fin s)) = human_duration_finite s" by simp
  with a show "human_duration (Some (Fin s)) =
          (let n = \<lfloor>s\<rfloor>;
               shown = take 3 (filter (\<lambda>(v, u). v \<noteq> 0)
                 [(n div 31536000, CHR ''y''), (n mod 31536000 div 86400, CHR ''d''),
                  (n mod 86400 div 3600, CHR ''h''), (n mod 3600 div 60, CHR ''m''),
                  (n mod 60, CHR ''s'')])
           in if shown = [] then ''0s''
              else join '' '' (map (\<lambda>(v, u). str_int v @ [u]) shown))"
    by (simp only: human_duration_finite_parts)
qed

text \<open>
  Instances: 10000 years of 365 days (the result, and the groups of the digits of
  \<^verbatim>\<open>10000\<close> that it is made of), one day one hour one minute and one second (the fourth
  component is not shown), and half a second.
\<close>

theorem human_duration_format_witness:
  "human_duration (Some (Fin 315360000000)) = ''10.000 years''
   \<and> (\<exists>gs. human_duration (Some (Fin 315360000000)) = join ''.'' gs @ '' years''
         \<and> concat gs = ''10000'')
   \<and> human_duration (Some (Fin 90061)) = ''1d 1h 1m''
   \<and> human_duration (Some (Fin (1 / 2))) = ''0s''"
proof -
  have s1: "str_int 1 = ''1''"
    by (simp add: str_int_def str_nat.simps [of "Suc 0"] digit_char_def)
  have fa: "\<lfloor>90061 :: real\<rfloor> = 90061" by simp
  have pa: "0 < (90061 :: real) \<and> \<lfloor>90061 :: real\<rfloor> div 31536000 < 10000"
    unfolding fa by simp
  note ta = human_duration_format [of 90061, THEN conjunct2, THEN conjunct2, THEN conjunct2,
      THEN conjunct2, THEN conjunct2, THEN conjunct2, THEN mp, OF pa]
  have a: "human_duration (Some (Fin 90061)) = ''1d 1h 1m''"
    unfolding ta fa Let_def by (simp add: s1)
  have fb: "\<lfloor>1 / 2 :: real\<rfloor> = 0" by simp
  have pb: "0 < (1 / 2 :: real) \<and> \<lfloor>1 / 2 :: real\<rfloor> div 31536000 < 10000"
    unfolding fb by simp
  note tb = human_duration_format [of "1 / 2", THEN conjunct2, THEN conjunct2, THEN conjunct2,
      THEN conjunct2, THEN conjunct2, THEN conjunct2, THEN mp, OF pb]
  have b: "human_duration (Some (Fin (1 / 2))) = ''0s''"
    unfolding tb fb Let_def by simp
  have fc: "\<lfloor>315360000000 :: real\<rfloor> = 315360000000" by simp
  have dc: "(315360000000 :: int) div 31536000 = 10000" by simp
  have pc: "0 < (315360000000 :: real) \<and> 10000 \<le> \<lfloor>315360000000 :: real\<rfloor> div 31536000"
    unfolding fc dc by simp
  have sc: "str_nat (nat 10000) = ''10000''"
    by (simp add: str_nat.simps digit_char_def)
  note tc = human_duration_format [of 315360000000, THEN conjunct2, THEN conjunct2,
      THEN conjunct2, THEN conjunct2, THEN conjunct2, THEN conjunct1, THEN mp, OF pc]
  have c: "\<exists>gs. human_duration (Some (Fin 315360000000)) = join ''.'' gs @ '' years''
         \<and> concat gs = ''10000''"
    using tc unfolding fc dc sc by blast
  have "human_duration_finite 315360000000 = ''10.000 years''"
    by (simp add: human_duration_finite_years fmt_comma.simps str_nat.simps pad3_def
        digit_char_def replace_char_def)
  then have d: "human_duration (Some (Fin 315360000000)) = ''10.000 years''" by simp
  from a b c d show ?thesis by (intro conjI)
qed

end
